theory Spec2Isabelle
  imports
    Complex_Main
    "HOL-Library.Char_ord"
    "HOL-Library.List_Lexorder"
    "HOL-Library.Product_Lexorder"
    "HOL-Library.Multiset"
    "HOL-Library.Monad_Syntax"
begin

section \<open>The data frames of the ridership dashboard\<close>

text \<open>
  The dashboard (\<^verbatim>\<open>app.py\<close>) reads one CSV file into a data frame, derives a
  per-station summary frame from it, filters both by the borough chosen in the sidebar and
  computes the data of each section from the filtered frames.

  A data frame is modelled as the list of its rows, in row order. A row keeps the columns
  the program names. Every cell is present: how the data-frame library treats missing
  cells (NaN) is outside the model, but for the timestamp cells that it reads as a missing
  time when the file is loaded. Counts are integers; the 64-bit range of the
  library's integer columns is assumed not to be exceeded by any sum (the totals of the
  ridership data are far below it). Coordinates and means are rationals: every
  floating-point value is one, and the rounding of floating-point arithmetic is not
  modelled.

  A parsed timestamp is the tuple (year, month, day, hour, minute, second); the
  lexicographic order of the tuples is the order of time.
\<close>

type_synonym timestamp = "nat \<times> nat \<times> nat \<times> nat \<times> nat \<times> nat"

text \<open>
  The columns \<^verbatim>\<open>station_complex\<close> and \<^verbatim>\<open>borough\<close> (and the coordinates) occur
  in the loaded frame and in the summary frame alike, so both row types extend one record.
  The type parameter of a loaded row is the type of its \<^verbatim>\<open>transit_timestamp\<close> cell:
  a string as read from the file, a timestamp or the missing time once
  \<^verbatim>\<open>load_data\<close> has converted it, a timestamp in the frames of the sections.
\<close>

record station_columns =
  station_complex :: string
  borough :: string
  latitude :: rat
  longitude :: rat

record 't ridership_record = station_columns +
  transit_timestamp :: 't
  payment_method :: string
  fare_class_category :: string
  ridership :: int
  transfers :: int

record station_summary = station_columns +
  total_ridership :: int
  total_transfers :: int

subsection \<open>Series operations\<close>

text \<open>
  \<^verbatim>\<open>Series.unique()\<close>: the distinct values in order of first appearance.
\<close>

fun unique :: "'a list \<Rightarrow> 'a list" where
  "unique [] = []"
| "unique (x # xs) = x # unique (filter (\<lambda>y. y \<noteq> x) xs)"

text \<open>
  \<^verbatim>\<open>Series.mean()\<close> of a series that is not empty. (On an empty series the
  library answers NaN; the callers below either pass a group of a \<^verbatim>\<open>groupby\<close>, which
  is never empty, or test for emptiness first.)
\<close>

definition mean :: "rat list \<Rightarrow> rat" where
  "mean xs = sum_list xs / of_nat (length xs)"

subsection \<open>Grouping\<close>

text \<open>
  \<^verbatim>\<open>df.groupby(keys)\<close> with the library's defaults (\<^verbatim>\<open>sort=True\<close>): one group per
  distinct key, the groups in ascending key order (for several key columns, the
  lexicographic order of the key tuples; strings compare character by character). Each
  group holds its rows in frame order.
\<close>

definition group_keys :: "('r \<Rightarrow> 'k::linorder) \<Rightarrow> 'r list \<Rightarrow> 'k list" where
  "group_keys key df = sort (remdups (map key df))"

definition groupby :: "('r \<Rightarrow> 'k::linorder) \<Rightarrow> 'r list \<Rightarrow> ('k \<times> 'r list) list" where
  "groupby key df = map (\<lambda>k. (k, filter (\<lambda>r. key r = k) df)) (group_keys key df)"

subsection \<open>The station summary\<close>

definition station_key :: "'a station_columns_scheme \<Rightarrow> string \<times> string" where
  "station_key r = (station_complex r, borough r)"

text \<open>
  \<^verbatim>\<open>create_station_summary\<close>: group by (\<^verbatim>\<open>station_complex\<close>, \<^verbatim>\<open>borough\<close>),
  sum ridership and transfers, average the coordinates; \<^verbatim>\<open>reset_index()\<close> turns the
  group keys back into columns.
\<close>

definition create_station_summary :: "'t ridership_record list \<Rightarrow> station_summary list" where
  "create_station_summary df =
     map (\<lambda>(k, rows).
           \<lparr> station_complex = fst k, borough = snd k,
             latitude = mean (map latitude rows),
             longitude = mean (map longitude rows),
             total_ridership = sum_list (map ridership rows),
             total_transfers = sum_list (map transfers rows) \<rparr>)
         (groupby station_key df)"

text \<open>
  The order the specification words for the summary: the groups in order of first
  appearance in the input. (Not the program's order; compared with it below.)
\<close>

definition first_appearance_order :: "'t ridership_record list \<Rightarrow> (string \<times> string) list" where
  "first_appearance_order df = unique (map station_key df)"

section \<open>Timestamps\<close>

text \<open>
  The accessors the program uses on the parsed column: \<^verbatim>\<open>.dt.date\<close>,
  \<^verbatim>\<open>.dt.hour\<close>, \<^verbatim>\<open>.dt.day_name()\<close> and
  \<^verbatim>\<open>strftime('%b %d, %Y')\<close>. The day of the week is computed from the civil date
  (0 is Monday, as the library counts).
\<close>

definition dt_date :: "timestamp \<Rightarrow> nat \<times> nat \<times> nat" where
  "dt_date t = (case t of (y, m, d, _) \<Rightarrow> (y, m, d))"

definition dt_hour :: "timestamp \<Rightarrow> nat" where
  "dt_hour t = (case t of (y, m, d, h, _) \<Rightarrow> h)"

definition month_shift :: "nat \<Rightarrow> nat" where
  "month_shift m =
     (if 1 \<le> m \<and> m \<le> 12 then [0, 3, 2, 5, 0, 3, 5, 1, 4, 6, 2, 4] ! (m - 1) else 0)"

definition dayofweek :: "timestamp \<Rightarrow> nat" where
  "dayofweek t =
     (case t of (y, m, d, _) \<Rightarrow>
        let y' = (if m < 3 then y - 1 else y)
        in (y' + y' div 4 - y' div 100 + y' div 400 + month_shift m + d + 6) mod 7)"

definition day_names :: "string list" where
  "day_names = [''Monday'', ''Tuesday'', ''Wednesday'', ''Thursday'', ''Friday'',
                ''Saturday'', ''Sunday'']"

definition day_name :: "timestamp \<Rightarrow> string" where
  "day_name t = day_names ! dayofweek t"

definition month_abbr :: "string list" where
  "month_abbr = [''Jan'', ''Feb'', ''Mar'', ''Apr'', ''May'', ''Jun'',
                 ''Jul'', ''Aug'', ''Sep'', ''Oct'', ''Nov'', ''Dec'']"

definition digit_char :: "nat \<Rightarrow> char" where
  "digit_char n = ''0123456789'' ! (n mod 10)"

definition strftime :: "timestamp \<Rightarrow> string" where
  "strftime t =
     (case t of (y, m, d, _) \<Rightarrow>
        (if 1 \<le> m \<and> m \<le> 12 then month_abbr ! (m - 1) else [])
        @ '' '' @ [digit_char (d div 10), digit_char d] @ '', ''
        @ [digit_char (y div 1000), digit_char (y div 100), digit_char (y div 10),
           digit_char y])"

subsection \<open>Parsing a timestamp cell\<close>

text \<open>
  \<^verbatim>\<open>pd.to_datetime(column, format='%m/%d/%Y %I:%M:%S %p')\<close> converts the cells one by
  one. A cell that is empty or one of the library's spellings of a missing value becomes
  the missing time \<^verbatim>\<open>NaT\<close>, before the format is looked at. Every other cell has to
  match the regular expression that the library builds from the format, from its first
  character to its last:

    \<^item> the month, 1 to 12, with or without a leading zero;
    \<^item> a slash and the day, 1 to 31, with or without a leading zero, or a space and one
      digit from 1 to 9;
    \<^item> a slash and a year of exactly four digits;
    \<^item> white space (one character or more), then the hour, 1 to 12, with or without a
      leading zero;
    \<^item> a colon and the minute, 0 to 59, in one or two digits;
    \<^item> a colon and the second, 0 to 61, in one or two digits;
    \<^item> white space, then \<^verbatim>\<open>am\<close> or \<^verbatim>\<open>pm\<close> in either case.

  A cell that does not match raises \<^verbatim>\<open>ValueError\<close>, and so does a cell whose year,
  month and day are no date of the calendar (the year 0 among them). The seconds 60 and 61
  are added to the minute arithmetically: they carry into the next minute.

  A character of the model is a code point below 256, so the white space of the regular
  expression is the twelve characters below and its digits are 0 to 9. The names of the
  two halves of the day are those of the C and the English locales. The cells are strings;
  a column that \<^verbatim>\<open>read_csv\<close> types as numbers is not modelled, and neither are the
  bounds of the library's timestamp range.
\<close>

definition is_digit :: "char \<Rightarrow> bool" where
  "is_digit c = (CHR ''0'' \<le> c \<and> c \<le> CHR ''9'')"

definition is_space :: "char \<Rightarrow> bool" where
  "is_space c =
     (c \<in> set [CHR '' '', CHR 0x09, CHR 0x0A, CHR 0x0B, CHR 0x0C, CHR 0x0D,
                CHR 0x1C, CHR 0x1D, CHR 0x1E, CHR 0x1F, CHR 0x85, CHR 0xA0])"

definition digit_value :: "char \<Rightarrow> nat" where
  "digit_value c = of_char c - of_char CHR ''0''"

definition number :: "string \<Rightarrow> nat" where
  "number ds = foldl (\<lambda>n c. 10 * n + digit_value c) 0 ds"

definition digits :: "nat \<Rightarrow> nat \<Rightarrow> string \<Rightarrow> (nat \<times> string) option" where
  "digits lo hi s =
     (let ds = takeWhile is_digit s in
      if lo \<le> length ds \<and> length ds \<le> hi then Some (number ds, dropWhile is_digit s)
      else None)"

text \<open>The day of the month: digits, or a space and one digit that is not 0.\<close>

definition day_of_month :: "string \<Rightarrow> (nat \<times> string) option" where
  "day_of_month s =
     (case s of
        [] \<Rightarrow> None
      | c # rest \<Rightarrow>
          if c = CHR '' ''
          then (case rest of
                  [] \<Rightarrow> None
                | d # rest' \<Rightarrow>
                    if is_digit d \<and> d \<noteq> CHR ''0'' then Some (digit_value d, rest') else None)
          else digits 1 2 s)"

definition literal :: "char \<Rightarrow> string \<Rightarrow> string option" where
  "literal c s = (case s of [] \<Rightarrow> None | c' # rest \<Rightarrow> if c' = c then Some rest else None)"

definition whitespace :: "string \<Rightarrow> string option" where
  "whitespace s =
     (case s of [] \<Rightarrow> None
      | c # rest \<Rightarrow> if is_space c then Some (dropWhile is_space rest) else None)"

definition am_pm :: "string \<Rightarrow> bool option" where
  "am_pm s =
     (if s \<in> set [''AM'', ''am'', ''Am'', ''aM''] then Some False
      else if s \<in> set [''PM'', ''pm'', ''Pm'', ''pM''] then Some True
      else None)"

definition leap_year :: "nat \<Rightarrow> bool" where
  "leap_year y = (if y mod 400 = 0 then True else if y mod 100 = 0 then False else y mod 4 = 0)"

definition days_in_month :: "nat \<Rightarrow> nat \<Rightarrow> nat" where
  "days_in_month y m =
     (if m = 2 then (if leap_year y then 29 else 28)
      else if m \<in> set [4, 6, 9, 11] then 30 else 31)"

text \<open>Seconds from 60 on carry into the minute, and on into the hour, day, month, year.\<close>

definition carry_seconds :: "timestamp \<Rightarrow> timestamp" where
  "carry_seconds t =
     (case t of (y, mo, d, h, mi, sec) \<Rightarrow>
        if sec < 60 then t
        else if mi < 59 then (y, mo, d, h, mi + 1, sec - 60)
        else if h < 23 then (y, mo, d, h + 1, 0, sec - 60)
        else if d < days_in_month y mo then (y, mo, d + 1, 0, 0, sec - 60)
        else if mo < 12 then (y, mo + 1, 1, 0, 0, sec - 60)
        else (y + 1, 1, 1, 0, 0, sec - 60))"

text \<open>Matching a cell against the format and converting what matched.\<close>

definition strptime :: "string \<Rightarrow> timestamp option" where
  "strptime s = do {
     (mo, s1) \<leftarrow> digits 1 2 s;
     s2 \<leftarrow> literal CHR ''/'' s1;
     (d, s3) \<leftarrow> day_of_month s2;
     s4 \<leftarrow> literal CHR ''/'' s3;
     (y, s5) \<leftarrow> digits 4 4 s4;
     s6 \<leftarrow> whitespace s5;
     (h, s7) \<leftarrow> digits 1 2 s6;
     s8 \<leftarrow> literal CHR '':'' s7;
     (mi, s9) \<leftarrow> digits 1 2 s8;
     s10 \<leftarrow> literal CHR '':'' s9;
     (sec, s11) \<leftarrow> digits 1 2 s10;
     s12 \<leftarrow> whitespace s11;
     pm \<leftarrow> am_pm s12;
     if 1 \<le> y \<and> 1 \<le> mo \<and> mo \<le> 12 \<and> 1 \<le> d \<and> d \<le> days_in_month y mo
        \<and> 1 \<le> h \<and> h \<le> 12 \<and> mi \<le> 59 \<and> sec \<le> 61
     then Some (carry_seconds (y, mo, d, h mod 12 + (if pm then 12 else 0), mi, sec))
     else None
   }"

section \<open>Loading the data\<close>

text \<open>
  Python exceptions are values. What \<^verbatim>\<open>pd.read_csv\<close> finds at a path is a parameter
  of the model: no file, a file that cannot be opened, or a table (the syntax of CSV text
  is not modelled: a readable file is the list of its rows, with the timestamp cells still
  strings).
\<close>

datatype py_exception = FileNotFoundError | PermissionError | ValueError | KeyError




text \<open>
  The library's spellings of a missing time. A converted cell is a timestamp or
  \<^verbatim>\<open>None\<close>, the missing time \<^verbatim>\<open>NaT\<close>.
\<close>

definition nat_strings :: "string list" where
  "nat_strings = [''NaT'', ''nat'', ''NAT'', ''nan'', ''NaN'', ''NAN'']"

definition convert_cell :: "string \<Rightarrow> py_exception + timestamp option" where
  "convert_cell c =
     (if c = [] \<or> c \<in> set nat_strings then Inr None
      else (case strptime c of None \<Rightarrow> Inl ValueError | Some t \<Rightarrow> Inr (Some t)))"

fun to_datetime :: "string list \<Rightarrow> py_exception + timestamp option list" where
  "to_datetime [] = Inr []"
| "to_datetime (c # cs) =
     (case convert_cell c of
        Inl e \<Rightarrow> Inl e
      | Inr t \<Rightarrow> (case to_datetime cs of Inl e \<Rightarrow> Inl e | Inr ts \<Rightarrow> Inr (t # ts)))"



section \<open>The borough filter\<close>

text \<open>
  The sidebar offers \<^verbatim>\<open>'Overall'\<close> and then every distinct borough of the loaded
  frame. The selection is a string; \<^verbatim>\<open>'Overall'\<close> selects the whole data, any other
  value keeps the rows of both frames whose borough equals it.
\<close>

definition borough_list :: "'t ridership_record list \<Rightarrow> string list" where
  "borough_list df = ''Overall'' # unique (map borough df)"

record 't filtered_view =
  main_df :: "'t ridership_record list"
  station_df :: "station_summary list"
  title_suffix :: string
  zoom_level :: rat

definition filter_selection ::
  "'t ridership_record list \<Rightarrow> station_summary list \<Rightarrow> string \<Rightarrow> 't filtered_view" where
  "filter_selection df station_summary selected_borough =
     (if selected_borough = ''Overall''
      then \<lparr> main_df = df, station_df = station_summary,
             title_suffix = ''in NYC'', zoom_level = 19 / 2 \<rparr>
      else \<lparr> main_df = filter (\<lambda>r. borough r = selected_borough) df,
             station_df = filter (\<lambda>s. borough s = selected_borough) station_summary,
             title_suffix = ''in '' @ selected_borough, zoom_level = 11 \<rparr>)"

section \<open>The sections of the dashboard\<close>

subsection \<open>Hourly trend and key metrics\<close>

text \<open>
  \<^verbatim>\<open>line_data_to_plot\<close>: ridership summed per timestamp (the timestamps of the data
  are hourly), one row per distinct timestamp, in time order.
\<close>

definition line_data_to_plot :: "timestamp ridership_record list \<Rightarrow> (timestamp \<times> int) list" where
  "line_data_to_plot mdf =
     map (\<lambda>(k, rows). (k, sum_list (map ridership rows))) (groupby transit_timestamp mdf)"

text \<open>
  \<^verbatim>\<open>Series.idxmax()\<close>: the label of the first row holding the maximum;
  \<^verbatim>\<open>ValueError\<close> on an empty series. Both frames it is used on carry unique row
  labels, so the label is modelled as the row's position and \<^verbatim>\<open>.loc[label]\<close> as the
  row at that position.
\<close>

fun first_max :: "nat \<Rightarrow> int \<Rightarrow> nat \<Rightarrow> int list \<Rightarrow> nat" where
  "first_max best v i [] = best"
| "first_max best v i (x # xs) =
     (if v < x then first_max i x (Suc i) xs else first_max best v (Suc i) xs)"

definition idxmax :: "int list \<Rightarrow> py_exception + nat" where
  "idxmax xs = (case xs of [] \<Rightarrow> Inl ValueError | x # rest \<Rightarrow> Inr (first_max 0 x 1 rest))"

definition loc :: "'a list \<Rightarrow> nat \<Rightarrow> py_exception + 'a" where
  "loc frame i = (if i < length frame then Inr (frame ! i) else Inl KeyError)"

text \<open>
  The metric cards. \<^verbatim>\<open>None\<close> in \<^verbatim>\<open>avg_ridership_metric\<close> is the NaN of an empty
  mean; \<^verbatim>\<open>None\<close> in the other optional fields is a card that is not drawn.
\<close>

record key_metrics =
  total_ridership_metric :: int
  avg_ridership_metric :: "rat option"
  busiest_day :: "(string \<times> int) option"
  busiest_station :: "(string \<times> int) option"
  total_transfers_metric :: "int option"

definition busiest_day_card :: "(timestamp \<times> int) list \<Rightarrow> py_exception + (string \<times> int) option" where
  "busiest_day_card line_data =
     (if line_data = [] then Inr None
      else (case idxmax (map snd line_data) of
              Inl e \<Rightarrow> Inl e
            | Inr i \<Rightarrow> (case loc line_data i of
                          Inl e \<Rightarrow> Inl e
                        | Inr busiest_day_data \<Rightarrow>
                            Inr (Some (strftime (fst busiest_day_data), snd busiest_day_data)))))"

definition busiest_station_card :: "station_summary list \<Rightarrow> py_exception + (string \<times> int) option" where
  "busiest_station_card sdf =
     (if sdf = [] then Inr None
      else (case idxmax (map total_ridership sdf) of
              Inl e \<Rightarrow> Inl e
            | Inr i \<Rightarrow> (case loc sdf i of
                          Inl e \<Rightarrow> Inl e
                        | Inr busiest_station_data \<Rightarrow>
                            Inr (Some (station_complex busiest_station_data,
                                       total_ridership busiest_station_data)))))"

definition key_metrics_cards ::
  "timestamp ridership_record list \<Rightarrow> station_summary list \<Rightarrow> (timestamp \<times> int) list
   \<Rightarrow> py_exception + key_metrics" where
  "key_metrics_cards mdf sdf line_data =
     (case busiest_day_card line_data of
        Inl e \<Rightarrow> Inl e
      | Inr day \<Rightarrow>
          (case busiest_station_card sdf of
             Inl e \<Rightarrow> Inl e
           | Inr station \<Rightarrow>
               Inr \<lparr> total_ridership_metric = sum_list (map ridership mdf),
                     avg_ridership_metric =
                       (if mdf = [] then None
                        else Some (mean (map (\<lambda>r. of_int (ridership r)) mdf))),
                     busiest_day = day,
                     busiest_station = station,
                     total_transfers_metric =
                       (if sdf = [] then None
                        else Some (sum_list (map total_transfers sdf))) \<rparr>))"

text \<open>
  The total per calendar day, as the specification words the busiest-day metric (the
  grouping by \<^verbatim>\<open>.dt.date\<close> that the payment-trend section of the program uses).
  Not what the metric card computes; compared with it below.
\<close>

definition ridership_by_day :: "timestamp ridership_record list \<Rightarrow> ((nat \<times> nat \<times> nat) \<times> int) list" where
  "ridership_by_day mdf =
     map (\<lambda>(k, rows). (k, sum_list (map ridership rows)))
         (groupby (\<lambda>r. dt_date (transit_timestamp r)) mdf)"

subsection \<open>Top-10 charts\<close>

text \<open>
  \<^verbatim>\<open>frame.nlargest(n, column)\<close>: the \<^verbatim>\<open>n\<close> rows with the largest values, largest
  first, or all rows when the frame has fewer. Rows with equal values are kept in frame
  order here (\<^verbatim>\<open>keep='first'\<close>); no property below depends on the order of ties.
\<close>

definition nlargest :: "nat \<Rightarrow> ('r \<Rightarrow> int) \<Rightarrow> 'r list \<Rightarrow> 'r list" where
  "nlargest n column frame = take n (sort_key (\<lambda>r. - column r) frame)"

definition top_10_stations :: "station_summary list \<Rightarrow> station_summary list" where
  "top_10_stations sdf = nlargest 10 total_ridership sdf"

definition top_10_transfers :: "station_summary list \<Rightarrow> station_summary list" where
  "top_10_transfers sdf = nlargest 10 total_transfers sdf"

subsection \<open>Weekly pattern\<close>

text \<open>
  The mean ridership per (day of week, hour), pivoted to one row per observed hour and
  one column per observed day, then re-indexed to the columns Monday to Sunday. A cell is
  \<^verbatim>\<open>None\<close> where the table holds NaN. \<^verbatim>\<open>pivot\<close> raises \<^verbatim>\<open>ValueError\<close> when an
  (index, column) pair occurs twice.
\<close>

record pivot_table =
  p_index :: "nat list"
  p_columns :: "string list"
  p_values :: "rat option list list"

definition heatmap_data :: "timestamp ridership_record list \<Rightarrow> ((string \<times> nat) \<times> rat) list" where
  "heatmap_data mdf =
     map (\<lambda>(k, rows). (k, mean (map (\<lambda>r. of_int (ridership r)) rows)))
         (groupby (\<lambda>r. (day_name (transit_timestamp r), dt_hour (transit_timestamp r))) mdf)"

definition pivot :: "((string \<times> nat) \<times> rat) list \<Rightarrow> py_exception + pivot_table" where
  "pivot data =
     (if distinct (map fst data)
      then Inr \<lparr> p_index = sort (remdups (map (\<lambda>(k, v). snd k) data)),
                 p_columns = sort (remdups (map (\<lambda>(k, v). fst k) data)),
                 p_values =
                   map (\<lambda>hour. map (\<lambda>day. map_of data (day, hour))
                                   (sort (remdups (map (\<lambda>(k, v). fst k) data))))
                       (sort (remdups (map (\<lambda>(k, v). snd k) data))) \<rparr>
      else Inl ValueError)"

fun position :: "'a \<Rightarrow> 'a list \<Rightarrow> nat option" where
  "position x [] = None"
| "position x (y # ys) = (if x = y then Some 0 else map_option Suc (position x ys))"

definition reindex_columns :: "string list \<Rightarrow> pivot_table \<Rightarrow> pivot_table" where
  "reindex_columns new_columns p =
     \<lparr> p_index = p_index p,
       p_columns = new_columns,
       p_values =
         map (\<lambda>row. map (\<lambda>c. case position c (p_columns p) of
                                None \<Rightarrow> None
                              | Some j \<Rightarrow> row ! j)
                         new_columns)
             (p_values p) \<rparr>"

definition day_order :: "string list" where
  "day_order = [''Monday'', ''Tuesday'', ''Wednesday'', ''Thursday'', ''Friday'',
                ''Saturday'', ''Sunday'']"

definition heatmap_pivot :: "timestamp ridership_record list \<Rightarrow> py_exception + pivot_table" where
  "heatmap_pivot mdf =
     (case pivot (heatmap_data mdf) of
        Inl e \<Rightarrow> Inl e
      | Inr p \<Rightarrow> Inr (reindex_columns day_order p))"

text \<open>Reading one cell of the table: \<^verbatim>\<open>None\<close> where the table has no such row or
  column, or holds NaN there.\<close>

definition cell :: "pivot_table \<Rightarrow> string \<Rightarrow> nat \<Rightarrow> rat option" where
  "cell p day hour =
     (case position hour (p_index p) of
        None \<Rightarrow> None
      | Some i \<Rightarrow> (case position day (p_columns p) of
                    None \<Rightarrow> None
                  | Some j \<Rightarrow> p_values p ! i ! j))"

subsection \<open>The page\<close>

text \<open>
  One run of the script for a selection of the sidebar: the start-up block, then the
  sections in page order. Drawing the charts is outside the model; the page holds the data
  of each section. The raw-data expander at the end shows \<^verbatim>\<open>df.head(1000)\<close>.
\<close>

record dashboard =
  view :: "timestamp filtered_view"
  line_chart :: "(timestamp \<times> int) list"
  metrics :: key_metrics
  busiest_stations_chart :: "station_summary list"
  weekly_heatmap :: pivot_table
  transfer_hubs_chart :: "station_summary list"
  raw_dataset_sample :: "timestamp ridership_record list"

definition render ::
  "timestamp ridership_record list \<Rightarrow> station_summary list \<Rightarrow> string
   \<Rightarrow> py_exception + dashboard" where
  "render df station_summary selected_borough =
     (let v = filter_selection df station_summary selected_borough;
          line_data = line_data_to_plot (main_df v)
      in case key_metrics_cards (main_df v) (station_df v) line_data of
           Inl e \<Rightarrow> Inl e
         | Inr cards \<Rightarrow>
             (case heatmap_pivot (main_df v) of
                Inl e \<Rightarrow> Inl e
              | Inr hm \<Rightarrow>
                  Inr \<lparr> view = v,
                        line_chart = line_data,
                        metrics = cards,
                        busiest_stations_chart = top_10_stations (station_df v),
                        weekly_heatmap = hm,
                        transfer_hubs_chart = top_10_transfers (station_df v),
                        raw_dataset_sample = take 1000 df \<rparr>))"






section \<open>Example data\<close>

text \<open>
  Rows for the worked examples: the columns that matter are the arguments, the others are
  fixed.
\<close>

definition example_row :: "string \<Rightarrow> string \<Rightarrow> 't \<Rightarrow> int \<Rightarrow> int \<Rightarrow> 't ridership_record" where
  "example_row station boro ts riders xfers =
     \<lparr> station_complex = station, borough = boro, latitude = 0, longitude = 0,
       transit_timestamp = ts,
       payment_method = ''omny'', fare_class_category = ''OMNY - Full Fare'',
       ridership = riders, transfers = xfers \<rparr>"

text \<open>
  The three-row data set of the specification's end-to-end scenario.
\<close>

definition scenario :: "timestamp ridership_record list" where
  "scenario =
     [example_row ''StationA'' ''Queens'' (2024, 1, 1, 8, 0, 0) 5 1,
      example_row ''StationA'' ''Queens'' (2024, 1, 1, 9, 0, 0) 7 2,
      example_row ''StationB'' ''Bronx'' (2024, 1, 1, 8, 0, 0) 3 0]"

text \<open>A frame whose first row belongs to the station that sorts last.\<close>

definition station_b_first :: "timestamp ridership_record list" where
  "station_b_first =
     [example_row ''StationB'' ''Bronx'' (2024, 1, 1, 8, 0, 0) 3 0,
      example_row ''StationA'' ''Queens'' (2024, 1, 1, 8, 0, 0) 5 1]"

text \<open>A frame with a borough that is spelled like the first entry of the sidebar.\<close>

definition overall_borough :: "timestamp ridership_record list" where
  "overall_borough =
     [example_row ''StationA'' ''Overall'' (2024, 1, 1, 8, 0, 0) 5 1,
      example_row ''StationB'' ''Queens'' (2024, 1, 1, 8, 0, 0) 3 0]"




text \<open>Two records on Mondays (1 and 8 January 2024) in the hour from nine o'clock.\<close>

definition two_mondays :: "timestamp ridership_record list" where
  "two_mondays =
     [example_row ''StationA'' ''Queens'' (2024, 1, 1, 9, 0, 0) 10 0,
      example_row ''StationB'' ''Bronx'' (2024, 1, 8, 9, 30, 0) 20 0]"

text \<open>
  One station over two days: two hours of 10 riders each on 1 January 2024, one hour of 15
  riders on 2 January.
\<close>

definition peak_hour :: "timestamp ridership_record list" where
  "peak_hour =
     [example_row ''StationA'' ''Queens'' (2024, 1, 1, 8, 0, 0) 10 0,
      example_row ''StationA'' ''Queens'' (2024, 1, 1, 9, 0, 0) 10 0,
      example_row ''StationA'' ''Queens'' (2024, 1, 2, 8, 0, 0) 15 0]"

section \<open>Properties of grouping\<close>

lemma set_unique: "set (unique xs) = set xs"
proof (induction xs rule: unique.induct)
  case 1
  show ?case by simp
next
  case (2 x xs)
  then show ?case by auto
qed

lemma distinct_unique: "distinct (unique xs)"
proof (induction xs rule: unique.induct)
  case 1
  show ?case by simp
next
  case (2 x xs)
  then show ?case by (simp add: set_unique)
qed

lemma set_group_keys: "set (group_keys key df) = key ` set df"
  by (simp add: group_keys_def)

lemma distinct_group_keys: "distinct (group_keys key df)"
  by (simp add: group_keys_def)

lemma sorted_group_keys: "sorted (group_keys key df)"
  by (simp add: group_keys_def)

lemma group_keys_sort_unique: "group_keys key df = sort (unique (map key df))"
proof (rule sorted_distinct_set_unique)
  show "sorted (group_keys key df)" by (rule sorted_group_keys)
  show "distinct (group_keys key df)" by (rule distinct_group_keys)
  show "sorted (sort (unique (map key df)))" by simp
  show "distinct (sort (unique (map key df)))" by (simp add: distinct_unique)
  show "set (group_keys key df) = set (sort (unique (map key df)))"
    by (simp add: set_group_keys set_unique)
qed

lemma station_key_summary:
  "map station_key (create_station_summary df) = group_keys station_key df"
  by (simp add: create_station_summary_def groupby_def station_key_def comp_def)

text \<open>Summing a column group by group, over finitely many keys.\<close>

lemma sum_over_groups:
  fixes g :: "'r \<Rightarrow> int"
  assumes "finite K"
  shows "(\<Sum>k\<in>K. sum_list (map g (filter (\<lambda>r. key r = k) df)))
         = sum_list (map g (filter (\<lambda>r. key r \<in> K) df))"
proof (induction df)
  case Nil
  show ?case by simp
next
  case (Cons r df)
  have "(\<Sum>k\<in>K. sum_list (map g (filter (\<lambda>r. key r = k) (r # df))))
        = (\<Sum>k\<in>K. (if key r = k then g r else 0)
                    + sum_list (map g (filter (\<lambda>r. key r = k) df)))"
    by (rule sum.cong) auto
  also have "\<dots> = (\<Sum>k\<in>K. if key r = k then g r else 0)
                  + (\<Sum>k\<in>K. sum_list (map g (filter (\<lambda>r. key r = k) df)))"
    by (rule sum.distrib)
  also have "(\<Sum>k\<in>K. if key r = k then g r else 0) = (if key r \<in> K then g r else 0)"
    using assms by (simp add: sum.delta')
  finally show ?case using Cons.IH by simp
qed

lemma sum_groupby:
  fixes g :: "'r \<Rightarrow> int"
  shows "(\<Sum>(k, rows)\<leftarrow>groupby key df. sum_list (map g rows)) = sum_list (map g df)"
proof -
  have "(\<Sum>(k, rows)\<leftarrow>groupby key df. sum_list (map g rows))
        = (\<Sum>k\<leftarrow>group_keys key df. sum_list (map g (filter (\<lambda>r. key r = k) df)))"
    by (simp add: groupby_def comp_def)
  also have "\<dots> = (\<Sum>k\<in>key ` set df. sum_list (map g (filter (\<lambda>r. key r = k) df)))"
    by (simp add: sum_list_distinct_conv_sum_set distinct_group_keys set_group_keys)
  also have "\<dots> = sum_list (map g (filter (\<lambda>r. key r \<in> key ` set df) df))"
    by (rule sum_over_groups) simp
  also have "filter (\<lambda>r. key r \<in> key ` set df) df = df"
    by (simp add: filter_id_conv)
  finally show ?thesis .
qed

lemma total_ridership_summary:
  "sum_list (map total_ridership (create_station_summary df)) = sum_list (map ridership df)"
proof -
  have "sum_list (map total_ridership (create_station_summary df))
        = (\<Sum>(k, rows)\<leftarrow>groupby station_key df. sum_list (map ridership rows))"
    by (simp add: create_station_summary_def comp_def case_prod_unfold)
  then show ?thesis by (simp add: sum_groupby)
qed

lemma total_transfers_summary:
  "sum_list (map total_transfers (create_station_summary df)) = sum_list (map transfers df)"
proof -
  have "sum_list (map total_transfers (create_station_summary df))
        = (\<Sum>(k, rows)\<leftarrow>groupby station_key df. sum_list (map transfers rows))"
    by (simp add: create_station_summary_def comp_def case_prod_unfold)
  then show ?thesis by (simp add: sum_groupby)
qed

text \<open>The rows of a frame, borough by borough.\<close>

lemma mset_over_groups:
  assumes "finite K"
  shows "(\<Sum>k\<in>K. mset (filter (\<lambda>r. key r = k) df)) = mset (filter (\<lambda>r. key r \<in> K) df)"
proof (induction df)
  case Nil
  show ?case by simp
next
  case (Cons r df)
  have "(\<Sum>k\<in>K. mset (filter (\<lambda>r. key r = k) (r # df)))
        = (\<Sum>k\<in>K. (if key r = k then {#r#} else {#}) + mset (filter (\<lambda>r. key r = k) df))"
    by (rule sum.cong) auto
  also have "\<dots> = (\<Sum>k\<in>K. if key r = k then {#r#} else {#})
                  + (\<Sum>k\<in>K. mset (filter (\<lambda>r. key r = k) df))"
    by (rule sum.distrib)
  also have "(\<Sum>k\<in>K. if key r = k then {#r#} else {#}) = (if key r \<in> K then {#r#} else {#})"
    using assms by (simp add: sum.delta')
  finally show ?case using Cons.IH by simp
qed

lemma mset_by_borough:
  "(\<Sum>b\<leftarrow>unique (map borough df). mset (filter (\<lambda>r. borough r = b) df)) = mset df"
proof -
  have "(\<Sum>b\<leftarrow>unique (map borough df). mset (filter (\<lambda>r. borough r = b) df))
        = (\<Sum>b\<in>borough ` set df. mset (filter (\<lambda>r. borough r = b) df))"
    by (simp add: sum_list_distinct_conv_sum_set distinct_unique set_unique)
  also have "\<dots> = mset (filter (\<lambda>r. borough r \<in> borough ` set df) df)"
    by (rule mset_over_groups) simp
  also have "filter (\<lambda>r. borough r \<in> borough ` set df) df = df"
    by (simp add: filter_id_conv)
  finally show ?thesis .
qed

lemma borough_summary: "borough ` set (create_station_summary df) = borough ` set df"
proof -
  have "borough ` set (create_station_summary df)
        = snd ` set (map station_key (create_station_summary df))"
    by (force simp: station_key_def)
  also have "\<dots> = snd ` station_key ` set df"
    by (simp add: station_key_summary set_group_keys)
  also have "\<dots> = borough ` set df"
    by (force simp: station_key_def)
  finally show ?thesis .
qed

text \<open>The scenario of the specification, evaluated.\<close>

lemma scenario_summary:
  "create_station_summary scenario
   = [\<lparr> station_complex = ''StationA'', borough = ''Queens'', latitude = 0, longitude = 0,
         total_ridership = 12, total_transfers = 3 \<rparr>,
      \<lparr> station_complex = ''StationB'', borough = ''Bronx'', latitude = 0, longitude = 0,
         total_ridership = 3, total_transfers = 0 \<rparr>]"
  by (simp add: scenario_def create_station_summary_def groupby_def group_keys_def
        station_key_def example_row_def mean_def)

lemmas strptime_defs = strptime_def digits_def day_of_month_def literal_def whitespace_def
  am_pm_def is_digit_def is_space_def number_def digit_value_def days_in_month_def leap_year_def
  carry_seconds_def

text \<open>
  Cells as the library converts them: a cell in the format, a day padded with a space and
  a lower-case half of the day, a leap second at the end of a year, a missing time.
\<close>

lemma strptime_examples:
  "strptime ''01/05/2024 08:00:00 AM'' = Some (2024, 1, 5, 8, 0, 0)"
  "strptime ''1/ 5/2024 12:30:07 pm'' = Some (2024, 1, 5, 12, 30, 7)"
  "strptime ''12/31/2024 11:59:60 PM'' = Some (2025, 1, 1, 0, 0, 0)"
  "strptime ''02/30/2024 08:00:00 AM'' = None"
  "convert_cell ''NaT'' = Inr None"
  by (simp_all add: strptime_defs convert_cell_def nat_strings_def)

lemma convert_cell_raises: "convert_cell c = Inl e \<Longrightarrow> e = ValueError"
  by (auto simp: convert_cell_def split: if_splits option.splits)

lemma to_datetime_raises: "to_datetime cells = Inl e \<Longrightarrow> e = ValueError"
proof (induction cells)
  case Nil
  then show ?case by simp
next
  case (Cons c cells)
  then show ?case
    by (auto dest: convert_cell_raises split: sum.splits)
qed


text \<open>The weekly pattern of two records in the same (day, hour) group, step by step.\<close>

lemma heatmap_data_two:
  assumes "day_name (transit_timestamp r1) = ''Monday''" "dt_hour (transit_timestamp r1) = 9"
      "ridership r1 = 10"
      "day_name (transit_timestamp r2) = ''Monday''" "dt_hour (transit_timestamp r2) = 9"
      "ridership r2 = 20"
  shows "heatmap_data [r1, r2] = [((''Monday'', 9), 15)]"
  using assms by (simp add: heatmap_data_def groupby_def group_keys_def mean_def)

lemma pivot_single:
  "pivot [((''Monday'', 9), 15)]
   = Inr \<lparr> p_index = [9], p_columns = [''Monday''], p_values = [[Some 15]] \<rparr>"
  by (simp add: pivot_def)

lemma reindex_single:
  "reindex_columns day_order \<lparr> p_index = [9], p_columns = [''Monday''], p_values = [[Some 15]] \<rparr>
   = \<lparr> p_index = [9], p_columns = day_order,
       p_values = [[Some 15, None, None, None, None, None, None]] \<rparr>"
  by (simp add: reindex_columns_def day_order_def)

lemma cell_single:
  "cell \<lparr> p_index = [9], p_columns = day_order,
          p_values = [[Some 15, None, None, None, None, None, None]] \<rparr> day hour
   = (if day = ''Monday'' \<and> hour = 9 then Some 15 else None)"
  by (simp add: cell_def day_order_def)

subsection \<open>The metric cards and the page never raise\<close>

text \<open>
  \<^verbatim>\<open>idxmax\<close> scans the series once and keeps the position of the first maximum. On
  a series that is not empty it returns a position inside the series, so the
  \<^verbatim>\<open>.loc\<close> that follows finds its row; the two cards test for emptiness first.
\<close>

lemma first_max_invariant:
  assumes "length pre = i" "best < i" "pre ! best = v"
      "\<forall>y\<in>set pre. y \<le> v" "\<forall>k<best. pre ! k < v"
  shows "first_max best v i xs < length (pre @ xs)
         \<and> (\<forall>y\<in>set (pre @ xs). y \<le> (pre @ xs) ! first_max best v i xs)
         \<and> (\<forall>k<first_max best v i xs. (pre @ xs) ! k < (pre @ xs) ! first_max best v i xs)"
  using assms
proof (induction xs arbitrary: pre i best v)
  case Nil
  then show ?case by simp
next
  case (Cons x xs)
  show ?case
  proof (cases "v < x")
    case True
    have "first_max i x (Suc i) xs < length ((pre @ [x]) @ xs)
         \<and> (\<forall>y\<in>set ((pre @ [x]) @ xs). y \<le> ((pre @ [x]) @ xs) ! first_max i x (Suc i) xs)
         \<and> (\<forall>k<first_max i x (Suc i) xs.
               ((pre @ [x]) @ xs) ! k < ((pre @ [x]) @ xs) ! first_max i x (Suc i) xs)"
    proof (rule Cons.IH)
      show "length (pre @ [x]) = Suc i" using Cons.prems(1) by simp
      show "i < Suc i" by simp
      show "(pre @ [x]) ! i = x" using Cons.prems(1) by (simp add: nth_append)
      show "\<forall>y\<in>set (pre @ [x]). y \<le> x" using Cons.prems(4) True by fastforce
      show "\<forall>k<i. (pre @ [x]) ! k < x"
      proof (intro allI impI)
        fix k assume k: "k < i"
        then have "pre ! k \<in> set pre" using Cons.prems(1) by simp
        then have "pre ! k \<le> v" using Cons.prems(4) by blast
        with True k Cons.prems(1) show "(pre @ [x]) ! k < x" by (simp add: nth_append)
      qed
    qed
    with True show ?thesis by simp
  next
    case False
    have "first_max best v (Suc i) xs < length ((pre @ [x]) @ xs)
         \<and> (\<forall>y\<in>set ((pre @ [x]) @ xs). y \<le> ((pre @ [x]) @ xs) ! first_max best v (Suc i) xs)
         \<and> (\<forall>k<first_max best v (Suc i) xs.
               ((pre @ [x]) @ xs) ! k < ((pre @ [x]) @ xs) ! first_max best v (Suc i) xs)"
    proof (rule Cons.IH)
      show "length (pre @ [x]) = Suc i" using Cons.prems(1) by simp
      show "best < Suc i" using Cons.prems(2) by simp
      show "(pre @ [x]) ! best = v" using Cons.prems(1,2,3) by (simp add: nth_append)
      show "\<forall>y\<in>set (pre @ [x]). y \<le> v" using Cons.prems(4) False by auto
      show "\<forall>k<best. (pre @ [x]) ! k < v" using Cons.prems(1,2,5) by (simp add: nth_append)
    qed
    with False show ?thesis by simp
  qed
qed

lemma idxmax_nonempty:
  assumes "xs \<noteq> []"
  shows "\<exists>j. idxmax xs = Inr j \<and> j < length xs \<and> (\<forall>y\<in>set xs. y \<le> xs ! j)
             \<and> (\<forall>k<j. xs ! k < xs ! j)"
proof -
  from assms obtain x rest where xs: "xs = x # rest"
    by (cases xs) auto
  have "first_max 0 x 1 rest < length ([x] @ rest)
         \<and> (\<forall>y\<in>set ([x] @ rest). y \<le> ([x] @ rest) ! first_max 0 x 1 rest)
         \<and> (\<forall>k<first_max 0 x 1 rest. ([x] @ rest) ! k < ([x] @ rest) ! first_max 0 x 1 rest)"
    by (rule first_max_invariant) simp_all
  then show ?thesis
    by (simp add: xs idxmax_def)
qed

lemma busiest_station_card_ok:
  "\<exists>c. busiest_station_card sdf = Inr c
       \<and> (c = None \<longleftrightarrow> sdf = [])
       \<and> (\<forall>name n. c = Some (name, n) \<longrightarrow>
             (\<exists>s\<in>set sdf. station_complex s = name \<and> total_ridership s = n)
             \<and> (\<forall>s\<in>set sdf. total_ridership s \<le> n))"
proof (cases "sdf = []")
  case True
  then show ?thesis by (simp add: busiest_station_card_def)
next
  case False
  then have "map total_ridership sdf \<noteq> []" by simp
  from idxmax_nonempty [OF this] obtain j where
    j: "idxmax (map total_ridership sdf) = Inr j" "j < length sdf"
       "\<forall>y\<in>set (map total_ridership sdf). y \<le> map total_ridership sdf ! j"
    by auto
  from j(2,3) have m: "\<forall>s\<in>set sdf. total_ridership s \<le> total_ridership (sdf ! j)"
    by simp
  have c: "busiest_station_card sdf
           = Inr (Some (station_complex (sdf ! j), total_ridership (sdf ! j)))"
    using False j(1,2) by (simp add: busiest_station_card_def loc_def)
  have "sdf ! j \<in> set sdf" using j(2) by simp
  with c m show ?thesis by auto
qed

lemma busiest_day_card_ok:
  "\<exists>c. busiest_day_card line_data = Inr c \<and> (c = None \<longleftrightarrow> line_data = [])"
proof (cases "line_data = []")
  case True
  then show ?thesis by (simp add: busiest_day_card_def)
next
  case False
  then have "map snd line_data \<noteq> []" by simp
  from idxmax_nonempty [OF this] obtain j where
    j: "idxmax (map snd line_data) = Inr j" "j < length line_data"
    by auto
  then show ?thesis
    using False by (simp add: busiest_day_card_def loc_def)
qed

lemma line_data_empty: "line_data_to_plot mdf = [] \<longleftrightarrow> mdf = []"
proof -
  have "line_data_to_plot mdf = [] \<longleftrightarrow> group_keys transit_timestamp mdf = []"
    by (simp add: line_data_to_plot_def groupby_def)
  also have "\<dots> \<longleftrightarrow> set (group_keys transit_timestamp mdf) = {}"
    by simp
  also have "\<dots> \<longleftrightarrow> mdf = []"
    by (simp only: set_group_keys image_is_empty set_empty)
  finally show ?thesis .
qed

lemma key_metrics_cards_ok:
  "\<exists>cards. key_metrics_cards mdf sdf (line_data_to_plot mdf) = Inr cards
       \<and> total_ridership_metric cards = sum_list (map ridership mdf)
       \<and> (busiest_day cards = None \<longleftrightarrow> mdf = [])
       \<and> (busiest_station cards = None \<longleftrightarrow> sdf = [])
       \<and> (\<forall>name n. busiest_station cards = Some (name, n) \<longrightarrow>
             (\<exists>s\<in>set sdf. station_complex s = name \<and> total_ridership s = n)
             \<and> (\<forall>s\<in>set sdf. total_ridership s \<le> n))"
proof -
  obtain d where d: "busiest_day_card (line_data_to_plot mdf) = Inr d"
      and d_none: "d = None \<longleftrightarrow> line_data_to_plot mdf = []"
    using busiest_day_card_ok by blast
  obtain c where c: "busiest_station_card sdf = Inr c"
      and c_none: "c = None \<longleftrightarrow> sdf = []"
      and c_some: "\<forall>name n. c = Some (name, n) \<longrightarrow>
             (\<exists>s\<in>set sdf. station_complex s = name \<and> total_ridership s = n)
             \<and> (\<forall>s\<in>set sdf. total_ridership s \<le> n)"
    using busiest_station_card_ok by blast
  define cards where "cards =
     \<lparr> total_ridership_metric = sum_list (map ridership mdf),
       avg_ridership_metric =
         (if mdf = [] then None else Some (mean (map (\<lambda>r. of_int (ridership r)) mdf))),
       busiest_day = d,
       busiest_station = c,
       total_transfers_metric =
         (if sdf = [] then None else Some (sum_list (map total_transfers sdf))) \<rparr>"
  have 1: "key_metrics_cards mdf sdf (line_data_to_plot mdf) = Inr cards"
    by (simp only: key_metrics_cards_def d c cards_def sum.case)
  have 2: "total_ridership_metric cards = sum_list (map ridership mdf)"
    by (simp add: cards_def)
  have bd: "busiest_day cards = d" and bs: "busiest_station cards = c"
    by (simp_all add: cards_def)
  have 3: "busiest_day cards = None \<longleftrightarrow> mdf = []"
    by (simp only: bd d_none line_data_empty)
  have 4: "busiest_station cards = None \<longleftrightarrow> sdf = []"
    by (simp only: bs c_none)
  have 5: "\<forall>name n. busiest_station cards = Some (name, n) \<longrightarrow>
             (\<exists>s\<in>set sdf. station_complex s = name \<and> total_ridership s = n)
             \<and> (\<forall>s\<in>set sdf. total_ridership s \<le> n)"
    using c_some by (simp only: bs)
  from 1 2 3 4 5 show ?thesis
    by (intro exI [of _ cards] conjI)
qed

lemma heatmap_pivot_ok: "\<exists>hm. heatmap_pivot mdf = Inr hm"
proof -
  have "map fst (heatmap_data mdf)
        = group_keys (\<lambda>r. (day_name (transit_timestamp r), dt_hour (transit_timestamp r))) mdf"
    by (simp add: heatmap_data_def groupby_def comp_def)
  then have d: "distinct (map fst (heatmap_data mdf))"
    by (simp only: distinct_group_keys)
  have "\<exists>p. pivot (heatmap_data mdf) = Inr p"
    unfolding pivot_def by (simp only: d if_True) (rule exI, rule refl)
  then obtain p where "pivot (heatmap_data mdf) = Inr p" ..
  then have "heatmap_pivot mdf = Inr (reindex_columns day_order p)"
    by (simp only: heatmap_pivot_def sum.case)
  then show ?thesis ..
qed

lemma render_ok:
  "\<exists>page. render df station_summary selected_borough = Inr page
          \<and> raw_dataset_sample page = take 1000 df"
proof -
  define v where "v = filter_selection df station_summary selected_borough"
  from key_metrics_cards_ok [of "main_df v" "station_df v"]
  obtain cards where k: "key_metrics_cards (main_df v) (station_df v)
                           (line_data_to_plot (main_df v)) = Inr cards"
    by (elim exE conjE)
  from heatmap_pivot_ok [of "main_df v"]
  obtain hm where h: "heatmap_pivot (main_df v) = Inr hm"
    by (elim exE)
  define page where "page =
     \<lparr> view = v,
       line_chart = line_data_to_plot (main_df v),
       metrics = cards,
       busiest_stations_chart = top_10_stations (station_df v),
       weekly_heatmap = hm,
       transfer_hubs_chart = top_10_transfers (station_df v),
       raw_dataset_sample = take 1000 df \<rparr>"
  have "render df station_summary selected_borough = Inr page"
    by (simp only: render_def Let_def v_def [symmetric] k h sum.case page_def)
  moreover have "raw_dataset_sample page = take 1000 df"
    by (simp add: page_def)
  ultimately show ?thesis
    by (intro exI [of _ page] conjI)
qed





subsection \<open>The cards of the two-day example\<close>

lemma peak_hour_line_data:
  "line_data_to_plot peak_hour
   = [((2024, 1, 1, 8, 0, 0), 10), ((2024, 1, 1, 9, 0, 0), 10), ((2024, 1, 2, 8, 0, 0), 15)]"
  by (simp add: line_data_to_plot_def groupby_def group_keys_def peak_hour_def example_row_def)

lemma peak_hour_by_day:
  "ridership_by_day peak_hour = [((2024, 1, 1), 20), ((2024, 1, 2), 15)]"
  by (simp add: ridership_by_day_def groupby_def group_keys_def peak_hour_def example_row_def
        dt_date_def)

lemma peak_hour_card:
  "busiest_day_card [((2024, 1, 1, 8, 0, 0), 10), ((2024, 1, 1, 9, 0, 0), 10),
                     ((2024, 1, 2, 8, 0, 0), 15)]
   = Inr (Some (''Jan 02, 2024'', 15))"
  by (simp add: busiest_day_card_def idxmax_def loc_def strftime_def month_abbr_def digit_char_def)

lemma peak_hour_summary:
  "create_station_summary peak_hour
   = [\<lparr> station_complex = ''StationA'', borough = ''Queens'', latitude = 0, longitude = 0,
         total_ridership = 35, total_transfers = 0 \<rparr>]"
  by (simp add: peak_hour_def create_station_summary_def groupby_def group_keys_def
        station_key_def example_row_def mean_def)

lemma peak_hour_station_card:
  "busiest_station_card
     [\<lparr> station_complex = ''StationA'', borough = ''Queens'', latitude = 0, longitude = 0,
         total_ridership = 35, total_transfers = 0 \<rparr>]
   = Inr (Some (''StationA'', 35))"
  by (simp add: busiest_station_card_def idxmax_def loc_def)

section \<open>The station summary: rows and totals\<close>

text \<open>
  Claim C1. For every loaded frame, \<^verbatim>\<open>create_station_summary\<close> produces exactly one
  row per distinct (\<^verbatim>\<open>station_complex\<close>, \<^verbatim>\<open>borough\<close>) pair of the input: the keys
  of the output rows are pairwise distinct and are exactly the pairs that occur in the
  input. The sum of \<^verbatim>\<open>total_ridership\<close> over the output rows equals the sum of
  \<^verbatim>\<open>ridership\<close> over the input rows.
\<close>

theorem create_station_summary_rows_and_total:
  "distinct (map station_key (create_station_summary df))
   \<and> set (map station_key (create_station_summary df)) = set (map station_key df)
   \<and> length (create_station_summary df) = card (set (map station_key df))
   \<and> sum_list (map total_ridership (create_station_summary df)) = sum_list (map ridership df)"
proof -
  have keys: "map station_key (create_station_summary df) = group_keys station_key df"
    by (rule station_key_summary)
  have d: "distinct (map station_key (create_station_summary df))"
    by (simp add: keys distinct_group_keys)
  have s: "set (map station_key (create_station_summary df)) = set (map station_key df)"
    by (simp add: keys set_group_keys)
  have "length (map station_key (create_station_summary df))
        = card (set (map station_key (create_station_summary df)))"
    using d by (simp only: distinct_card)
  then have l: "length (create_station_summary df) = card (set (map station_key df))"
    by (simp only: s length_map)
  from d s l total_ridership_summary [of df] show ?thesis by simp
qed

section \<open>The order of the summary rows\<close>

text \<open>
  Claim C2, as stated: the rows of the summary stand in the order in which their
  (station, borough) groups first appear in the input. The program's \<^verbatim>\<open>groupby\<close>
  sorts the groups by key. For the frame \<^verbatim>\<open>station_b_first\<close>, whose first row is
  StationB and whose second is StationA, the summary lists StationA first, while the order
  of first appearance lists StationB first.
\<close>

theorem summary_order_counterexample:
  "map station_key (create_station_summary station_b_first)
     = [(''StationA'', ''Queens''), (''StationB'', ''Bronx'')]
   \<and> first_appearance_order station_b_first
     = [(''StationB'', ''Bronx''), (''StationA'', ''Queens'')]
   \<and> map station_key (create_station_summary station_b_first)
     \<noteq> first_appearance_order station_b_first"
  by (simp add: station_key_summary group_keys_def first_appearance_order_def
        station_key_def example_row_def station_b_first_def)

text \<open>
  Claim C2, amended: the rows of the summary stand in ascending order of the group key
  (\<^verbatim>\<open>station_complex\<close>, then \<^verbatim>\<open>borough\<close>), strictly, whatever the order of the
  input: they are the groups of first appearance, sorted by key.
\<close>

theorem summary_order_sorted:
  "map station_key (create_station_summary df) = sort (first_appearance_order df)
   \<and> sorted_wrt (<) (map station_key (create_station_summary df))"
proof -
  have "map station_key (create_station_summary df) = sort (first_appearance_order df)"
    by (simp add: station_key_summary group_keys_sort_unique first_appearance_order_def)
  moreover have "sorted_wrt (<) (map station_key (create_station_summary df))"
    by (simp add: station_key_summary strict_sorted_iff sorted_group_keys distinct_group_keys)
  ultimately show ?thesis by simp
qed

section \<open>The borough filter\<close>

text \<open>
  Claim C6. The borough values are the distinct values of the \<^verbatim>\<open>borough\<close> column, the
  entries the sidebar lists after \<^verbatim>\<open>'Overall'\<close>. A borough is an administrative
  division of the city, so none of them is spelled like that first entry. Then filtering
  by every distinct borough value is a partition: for any two distinct borough values the
  filtered record sets are disjoint, and so are the filtered summary sets; the union of
  the filtered record sets over all distinct borough values is the unfiltered record set,
  likewise for the summaries; and every row of the frame lies in exactly one of the
  filtered frames, with its multiplicity. Two distinct selections other than
  \<^verbatim>\<open>'Overall'\<close> give disjoint frames also when they are no values of the column.
\<close>

theorem borough_filter_partition:
  assumes "''Overall'' \<notin> set (map borough df)"
  shows "(\<forall>b1\<in>set (unique (map borough df)). \<forall>b2\<in>set (unique (map borough df)).
            b1 \<noteq> b2 \<longrightarrow>
              set (main_df (filter_selection df (create_station_summary df) b1))
                \<inter> set (main_df (filter_selection df (create_station_summary df) b2)) = {}
              \<and> set (station_df (filter_selection df (create_station_summary df) b1))
                \<inter> set (station_df (filter_selection df (create_station_summary df) b2)) = {})
       \<and> (\<Union>b\<in>set (unique (map borough df)).
             set (main_df (filter_selection df (create_station_summary df) b))) = set df
       \<and> (\<Union>b\<in>set (unique (map borough df)).
             set (station_df (filter_selection df (create_station_summary df) b)))
           = set (create_station_summary df)
       \<and> (\<Sum>b\<leftarrow>unique (map borough df).
             mset (main_df (filter_selection df (create_station_summary df) b))) = mset df
       \<and> (\<forall>b1 b2. b1 \<noteq> b2 \<and> b1 \<noteq> ''Overall'' \<and> b2 \<noteq> ''Overall'' \<longrightarrow>
             set (main_df (filter_selection df (create_station_summary df) b1))
               \<inter> set (main_df (filter_selection df (create_station_summary df) b2)) = {}
             \<and> set (station_df (filter_selection df (create_station_summary df) b1))
               \<inter> set (station_df (filter_selection df (create_station_summary df) b2)) = {})"
proof -
  let ?ss = "create_station_summary df"
  let ?bs = "set (unique (map borough df))"
  have gen: "\<forall>b1 b2. b1 \<noteq> b2 \<and> b1 \<noteq> ''Overall'' \<and> b2 \<noteq> ''Overall'' \<longrightarrow>
      set (main_df (filter_selection df ?ss b1)) \<inter> set (main_df (filter_selection df ?ss b2)) = {}
      \<and> set (station_df (filter_selection df ?ss b1))
        \<inter> set (station_df (filter_selection df ?ss b2)) = {}"
    by (auto simp: filter_selection_def)
  have named: "\<forall>b\<in>?bs. b \<noteq> ''Overall''"
  proof
    fix b assume "b \<in> ?bs"
    then have "b \<in> set (map borough df)"
      by (simp only: set_unique)
    with assms show "b \<noteq> ''Overall''"
      by blast
  qed
  have disj: "\<forall>b1\<in>?bs. \<forall>b2\<in>?bs. b1 \<noteq> b2 \<longrightarrow>
      set (main_df (filter_selection df ?ss b1)) \<inter> set (main_df (filter_selection df ?ss b2)) = {}
      \<and> set (station_df (filter_selection df ?ss b1))
        \<inter> set (station_df (filter_selection df ?ss b2)) = {}"
  proof (intro ballI impI)
    fix b1 b2 assume "b1 \<in> ?bs" "b2 \<in> ?bs" "b1 \<noteq> b2"
    with named have "b1 \<noteq> b2 \<and> b1 \<noteq> ''Overall'' \<and> b2 \<noteq> ''Overall''"
      by blast
    with gen show "set (main_df (filter_selection df ?ss b1))
          \<inter> set (main_df (filter_selection df ?ss b2)) = {}
        \<and> set (station_df (filter_selection df ?ss b1))
          \<inter> set (station_df (filter_selection df ?ss b2)) = {}"
      by blast
  qed
  have u1: "(\<Union>b\<in>?bs. set (main_df (filter_selection df ?ss b))) = set df"
    by (auto simp: filter_selection_def set_unique split: if_splits)
  have u2: "(\<Union>b\<in>?bs. set (station_df (filter_selection df ?ss b))) = set ?ss"
  proof
    show "(\<Union>b\<in>?bs. set (station_df (filter_selection df ?ss b))) \<subseteq> set ?ss"
      by (auto simp: filter_selection_def split: if_splits)
    show "set ?ss \<subseteq> (\<Union>b\<in>?bs. set (station_df (filter_selection df ?ss b)))"
    proof
      fix s assume s: "s \<in> set ?ss"
      then have "borough s \<in> borough ` set df"
        using borough_summary [of df] by blast
      then have b: "borough s \<in> ?bs"
        by (simp add: set_unique)
      have "s \<in> set (station_df (filter_selection df ?ss (borough s)))"
        using s by (simp add: filter_selection_def)
      with b show "s \<in> (\<Union>b\<in>?bs. set (station_df (filter_selection df ?ss b)))"
        by blast
    qed
  qed
  have m: "(\<Sum>b\<leftarrow>unique (map borough df). mset (main_df (filter_selection df ?ss b))) = mset df"
  proof -
    have "map (\<lambda>b. mset (main_df (filter_selection df ?ss b))) (unique (map borough df))
          = map (\<lambda>b. mset (filter (\<lambda>r. borough r = b) df)) (unique (map borough df))"
    proof (rule map_cong [OF refl])
      fix b assume "b \<in> ?bs"
      with named have "b \<noteq> ''Overall''"
        by blast
      then show "mset (main_df (filter_selection df ?ss b)) = mset (filter (\<lambda>r. borough r = b) df)"
        by (simp add: filter_selection_def)
    qed
    then show ?thesis
      by (simp only: mset_by_borough)
  qed
  from disj u1 u2 m gen show ?thesis
    by (intro conjI)
qed

text \<open>
  The scenario's data: its borough values are Queens and Bronx.
\<close>

theorem borough_filter_partition_witness:
  "set (main_df (filter_selection scenario (create_station_summary scenario) ''Queens''))
     \<inter> set (main_df (filter_selection scenario (create_station_summary scenario) ''Bronx'')) = {}
   \<and> set (station_df (filter_selection scenario (create_station_summary scenario) ''Queens''))
     \<inter> set (station_df (filter_selection scenario (create_station_summary scenario) ''Bronx'')) = {}
   \<and> (\<Union>b\<in>set (unique (map borough scenario)).
         set (main_df (filter_selection scenario (create_station_summary scenario) b)))
     = set scenario
   \<and> (\<Sum>b\<leftarrow>unique (map borough scenario).
        mset (main_df (filter_selection scenario (create_station_summary scenario) b)))
     = mset scenario"
proof -
  have h: "''Overall'' \<notin> set (map borough scenario)"
    by (simp add: scenario_def example_row_def)
  have q: "''Queens'' \<in> set (unique (map borough scenario))"
    by (simp add: scenario_def example_row_def)
  have b: "''Bronx'' \<in> set (unique (map borough scenario))"
    by (simp add: scenario_def example_row_def)
  have n: "''Queens'' \<noteq> ''Bronx''"
    by simp
  note p = borough_filter_partition [OF h]
  note d = p [THEN conjunct1, THEN bspec, OF q, THEN bspec, OF b, THEN mp, OF n]
  note u = p [THEN conjunct2, THEN conjunct1]
  note m = p [THEN conjunct2, THEN conjunct2, THEN conjunct2, THEN conjunct1]
  from d u m show ?thesis
    by (intro conjI) (erule conjunct1, erule conjunct2)
qed

text \<open>
  The hypothesis is needed: the program tests the selection for \<^verbatim>\<open>'Overall'\<close> first
  and then takes the whole frame. In a frame with a borough of that name (no frame of
  the data model) the rows selected by it include those of every other borough.
\<close>

lemma sentinel_named_borough:
  "set (main_df (filter_selection overall_borough (create_station_summary overall_borough) ''Overall''))
     \<inter> set (main_df (filter_selection overall_borough (create_station_summary overall_borough) ''Queens''))
   = {example_row ''StationB'' ''Queens'' (2024, 1, 1, 8, 0, 0) 3 0}"
  by (simp add: overall_borough_def filter_selection_def example_row_def)


text \<open>
  Claim C7. Filtering is idempotent: filtering the filtered view again with the same
  selection, \<^verbatim>\<open>'Overall'\<close> or a borough, gives the same view.
\<close>

theorem filter_idempotent:
  "filter_selection (main_df (filter_selection df station_summary selected_borough))
                    (station_df (filter_selection df station_summary selected_borough))
                    selected_borough
   = filter_selection df station_summary selected_borough"
  by (simp add: filter_selection_def)

text \<open>
  Claim C8. For a selection other than \<^verbatim>\<open>'Overall'\<close>, the filtered summaries are
  exactly the rows of the summary whose borough equals the selection, and every filtered
  record has that borough; for the selection \<^verbatim>\<open>'Overall'\<close> both frames are unchanged.
\<close>

theorem filtered_view_invariant:
  "(selected_borough \<noteq> ''Overall'' \<longrightarrow>
      station_df (filter_selection df station_summary selected_borough)
        = filter (\<lambda>s. borough s = selected_borough) station_summary
      \<and> (\<forall>s \<in> set (station_df (filter_selection df station_summary selected_borough)).
            s \<in> set station_summary \<and> borough s = selected_borough)
      \<and> (\<forall>s \<in> set station_summary. borough s = selected_borough \<longrightarrow>
            s \<in> set (station_df (filter_selection df station_summary selected_borough)))
      \<and> (\<forall>r \<in> set (main_df (filter_selection df station_summary selected_borough)).
            r \<in> set df \<and> borough r = selected_borough))
   \<and> (selected_borough = ''Overall'' \<longrightarrow>
        main_df (filter_selection df station_summary selected_borough) = df
        \<and> station_df (filter_selection df station_summary selected_borough) = station_summary)"
  by (simp add: filter_selection_def)

theorem filtered_view_invariant_witness:
  "station_df (filter_selection scenario (create_station_summary scenario) ''Queens'')
     = [\<lparr> station_complex = ''StationA'', borough = ''Queens'', latitude = 0, longitude = 0,
           total_ridership = 12, total_transfers = 3 \<rparr>]
   \<and> main_df (filter_selection scenario (create_station_summary scenario) ''Overall'') = scenario
   \<and> station_df (filter_selection scenario (create_station_summary scenario) ''Overall'')
     = create_station_summary scenario"
proof -
  have q: "''Queens'' \<noteq> ''Overall''"
    by simp
  have f: "filter (\<lambda>s. borough s = ''Queens'') (create_station_summary scenario)
        = [\<lparr> station_complex = ''StationA'', borough = ''Queens'', latitude = 0, longitude = 0,
              total_ridership = 12, total_transfers = 3 \<rparr>]"
    by (simp add: scenario_summary)
  note queens = filtered_view_invariant [of "''Queens''" scenario "create_station_summary scenario",
      THEN conjunct1, THEN mp, OF q, THEN conjunct1]
  note overall = filtered_view_invariant [of "''Overall''" scenario "create_station_summary scenario",
      THEN conjunct2, THEN mp, OF refl]
  from queens f have a: "station_df (filter_selection scenario (create_station_summary scenario) ''Queens'')
        = [\<lparr> station_complex = ''StationA'', borough = ''Queens'', latitude = 0, longitude = 0,
              total_ridership = 12, total_transfers = 3 \<rparr>]"
    by (rule trans)
  from a overall show ?thesis
    by (rule conjI)
qed

section \<open>Start-up failures\<close>




section \<open>The weekly pattern\<close>

text \<open>
  Claim C5. For an input of exactly two records, both on a Monday in hour 9, with
  ridership 10 and 20, the weekly-pattern table has the single row of hour 9 and the
  columns Monday to Sunday; its (Monday, 9) cell is 15, and every other (day, hour) cell
  is missing: NaN in the row of hour 9, and no row at all for any other hour. No cell is
  zero.
\<close>

theorem weekly_pattern_two_records:
  assumes "day_name (transit_timestamp r1) = ''Monday''" "dt_hour (transit_timestamp r1) = 9"
      "ridership r1 = 10"
      "day_name (transit_timestamp r2) = ''Monday''" "dt_hour (transit_timestamp r2) = 9"
      "ridership r2 = 20"
  shows "\<exists>hm. heatmap_pivot [r1, r2] = Inr hm
          \<and> hm = \<lparr> p_index = [9], p_columns = day_order,
                   p_values = [[Some 15, None, None, None, None, None, None]] \<rparr>
          \<and> (\<forall>day hour. cell hm day hour
                = (if day = ''Monday'' \<and> hour = 9 then Some 15 else None))"
proof -
  have "heatmap_pivot [r1, r2]
        = Inr \<lparr> p_index = [9], p_columns = day_order,
                p_values = [[Some 15, None, None, None, None, None, None]] \<rparr>"
    by (simp add: heatmap_pivot_def heatmap_data_two [OF assms] pivot_single reindex_single)
  then show ?thesis
    by (simp add: cell_single)
qed

theorem weekly_pattern_two_records_witness:
  "heatmap_pivot two_mondays
     = Inr \<lparr> p_index = [9], p_columns = day_order,
             p_values = [[Some 15, None, None, None, None, None, None]] \<rparr>"
proof -
  have "\<exists>hm. heatmap_pivot two_mondays = Inr hm
          \<and> hm = \<lparr> p_index = [9], p_columns = day_order,
                   p_values = [[Some 15, None, None, None, None, None, None]] \<rparr>
          \<and> (\<forall>day hour. cell hm day hour
                = (if day = ''Monday'' \<and> hour = 9 then Some 15 else None))"
    unfolding two_mondays_def
    by (rule weekly_pattern_two_records) (simp_all add: example_row_def day_name_def dayofweek_def month_shift_def
          day_names_def dt_hour_def)
  then show ?thesis by blast
qed

section \<open>Small and empty inputs\<close>



section \<open>The raw-data sample\<close>

text \<open>
  Claim C10. For every selection the page is produced and its raw-data sample is the first
  1000 rows of the loaded frame, all rows when the frame has fewer: the sample has
  \<^verbatim>\<open>min(1000, n)\<close> rows and equals the sample under the selection \<^verbatim>\<open>'Overall'\<close>.
\<close>

theorem raw_sample_independent_of_selection:
  "\<exists>page overall.
      render df station_summary selected_borough = Inr page
      \<and> render df station_summary ''Overall'' = Inr overall
      \<and> raw_dataset_sample page = take 1000 df
      \<and> length (raw_dataset_sample page) = min 1000 (length df)
      \<and> raw_dataset_sample page = raw_dataset_sample overall"
proof -
  from render_ok [of df station_summary selected_borough]
  obtain page where p: "render df station_summary selected_borough = Inr page"
      and ps: "raw_dataset_sample page = take 1000 df"
    by (elim exE conjE)
  from render_ok [of df station_summary "''Overall''"]
  obtain overall where q: "render df station_summary ''Overall'' = Inr overall"
      and qs: "raw_dataset_sample overall = take 1000 df"
    by (elim exE conjE)
  have l: "length (raw_dataset_sample page) = min 1000 (length df)"
    by (simp only: ps length_take min.commute)
  have e: "raw_dataset_sample page = raw_dataset_sample overall"
    by (simp only: ps qs)
  from p q ps l e show ?thesis
    by (intro exI [of _ page] exI [of _ overall] conjI)
qed

section \<open>The busiest-day card\<close>

text \<open>
  Claim C4 on the two-day example. The total, the mean per record, the busiest station and
  the transfers are as the claim says. The card labelled \<^verbatim>\<open>Busiest Day\<close> takes
  \<^verbatim>\<open>idxmax\<close> over \<^verbatim>\<open>line_data_to_plot\<close>, whose rows are the totals per timestamp,
  that is, per hour, and prints the date of that row: it shows 2 January with 15 riders,
  the date and the riders of the busiest hour. The totals per calendar day (the grouping
  by \<^verbatim>\<open>.dt.date\<close> of the payment-trend section) are 20 on 1 January and 15 on
  2 January, so the day whose total is maximal is 1 January.
\<close>

theorem busiest_day_is_busiest_hour:
  "key_metrics_cards peak_hour (create_station_summary peak_hour) (line_data_to_plot peak_hour)
   = Inr \<lparr> total_ridership_metric = 35,
           avg_ridership_metric = Some (35 / 3),
           busiest_day = Some (''Jan 02, 2024'', 15),
           busiest_station = Some (''StationA'', 35),
           total_transfers_metric = Some 0 \<rparr>
   \<and> ridership_by_day peak_hour = [((2024, 1, 1), 20), ((2024, 1, 2), 15)]"
proof (rule conjI)
  have n: "peak_hour \<noteq> []"
    by (simp add: peak_hour_def)
  have s: "sum_list (map ridership peak_hour) = 35"
    by (simp add: peak_hour_def example_row_def)
  have m: "mean (map (\<lambda>r. of_int (ridership r)) peak_hour) = 35 / 3"
    by (simp add: peak_hour_def example_row_def mean_def)
  have t: "sum_list (map total_transfers
             [\<lparr> station_complex = ''StationA'', borough = ''Queens'', latitude = 0,
                 longitude = 0, total_ridership = 35, total_transfers = 0 \<rparr>]) = 0"
    by simp
  show "key_metrics_cards peak_hour (create_station_summary peak_hour)
                     (line_data_to_plot peak_hour)
     = Inr \<lparr> total_ridership_metric = 35,
             avg_ridership_metric = Some (35 / 3),
             busiest_day = Some (''Jan 02, 2024'', 15),
             busiest_station = Some (''StationA'', 35),
             total_transfers_metric = Some 0 \<rparr>"
    by (simp only: key_metrics_cards_def peak_hour_line_data peak_hour_card peak_hour_summary
          peak_hour_station_card sum.case n s m t if_False list.distinct)
next
  show "ridership_by_day peak_hour = [((2024, 1, 1), 20), ((2024, 1, 2), 15)]"
    by (rule peak_hour_by_day)
qed

end
